theory Spec2Isabelle
  imports Main
begin

section \<open>The environment of \<open>c10/util/tempfile.h\<close>\<close>

text \<open>
  The header creates temporary files and directories through operating-system calls
  and removes them in destructors. The model threads an explicit \<open>world\<close> through
  every function: the process environment, the filesystem, the table of open
  descriptors, \<open>errno\<close>, the Win32 last-error value, the names \<open>tmpnam_s\<close> has
  handed out and the warnings printed. The
  decisions that belong to the operating system (which six characters \<open>mkstemp\<close>
  picks, whether a call is refused) are read from a \<open>script\<close>, one entry per call, so
  that a statement about every world is a statement about every behaviour of the system.

  The header is compiled for one of two platforms (\<open>#if defined(_WIN32)\<close>); the model
  takes the platform as a parameter.
\<close>

datatype platform = Posix | Win32

datatype node = File | Dir

datatype os_answer = Refuse int | Grant string

datatype fault = Terminated | TorchError string

record world =
  env :: "(string \<times> string) list"
  fs :: "(string \<times> node) list"
  fds :: "int list"
  errno :: int
  last_error :: int
  script :: "nat \<Rightarrow> os_answer"
  clock :: nat
  issued :: "string list"
  warnings :: "string list"

definition ENOENT :: int where "ENOENT = 2"
definition EBADF :: int where "EBADF = 9"
definition EEXIST :: int where "EEXIST = 17"
definition EINVAL :: int where "EINVAL = 22"
definition ERROR_ALREADY_EXISTS :: int where "ERROR_ALREADY_EXISTS = 183"

subsection \<open>Filesystem queries and removal\<close>

definition lookup :: "(string \<times> node) list \<Rightarrow> string \<Rightarrow> node option" where
  "lookup tbl p = map_of tbl p"

definition unlink :: "string \<Rightarrow> (string \<times> node) list \<Rightarrow> (string \<times> node) list" where
  "unlink p tbl = filter (\<lambda>kv. fst kv \<noteq> p) tbl"

definition is_regular_file :: "world \<Rightarrow> string \<Rightarrow> bool" where
  "is_regular_file w p = (lookup (fs w) p = Some File)"

definition is_directory :: "world \<Rightarrow> string \<Rightarrow> bool" where
  "is_directory w p = (lookup (fs w) p = Some Dir)"

primrec starts_with :: "string \<Rightarrow> string \<Rightarrow> bool" where
  "starts_with [] s = True"
| "starts_with (c # cs) s = (case s of [] \<Rightarrow> False | d # ds \<Rightarrow> c = d \<and> starts_with cs ds)"

definition as_directory :: "string \<Rightarrow> string" where
  "as_directory d = (if d \<noteq> [] \<and> last d = CHR ''/'' then d else d @ ''/'')"

text \<open>An entry lies below directory \<open>d\<close> when its path continues \<open>d/\<close>.\<close>

definition lies_below :: "string \<Rightarrow> string \<Rightarrow> bool" where
  "lies_below d p = (p \<noteq> as_directory d \<and> p \<noteq> d \<and> starts_with (as_directory d) p)"

definition has_entries :: "(string \<times> node) list \<Rightarrow> string \<Rightarrow> bool" where
  "has_entries tbl d = list_ex (\<lambda>kv. lies_below d (fst kv)) tbl"

text \<open>
  An operating-system call reads its entry of the script and moves the clock on.
\<close>

definition tick :: "world \<Rightarrow> world" where
  "tick w = w\<lparr>clock := Suc (clock w)\<rparr>"

text \<open>
  \<open>std::filesystem::remove(p)\<close>, the overload without \<open>error_code\<close>: deletes the file
  or the empty directory \<open>p\<close> and returns whether something was deleted. It returns
  \<open>false\<close> when nothing exists at \<open>p\<close> (\<open>ENOENT\<close>) and throws \<open>filesystem_error\<close> on
  every other error: when the system refuses the removal (\<open>EACCES\<close>, \<open>EROFS\<close>,
  \<open>EBUSY\<close>, ...) and when \<open>p\<close> is a directory that still has entries. \<open>None\<close> is the
  throw.
\<close>

definition fs_remove :: "world \<Rightarrow> string \<Rightarrow> (world \<times> bool) option" where
  "fs_remove w p =
     (case script w (clock w) of
        Refuse e \<Rightarrow> if e = ENOENT then Some (tick w, False) else None
      | Grant _ \<Rightarrow>
          (case lookup (fs w) p of
             None \<Rightarrow> Some (tick w, False)
           | Some File \<Rightarrow> Some ((tick w)\<lparr>fs := unlink p (fs w)\<rparr>, True)
           | Some Dir \<Rightarrow>
               if has_entries (fs w) p then None
               else Some ((tick w)\<lparr>fs := unlink p (fs w)\<rparr>, True)))"

text \<open>\<open>close(fd)\<close>: releases an open descriptor; on any other number it sets \<open>EBADF\<close>.\<close>

definition posix_close :: "world \<Rightarrow> int \<Rightarrow> world" where
  "posix_close w d =
     (if d \<in> set (fds w) then w\<lparr>fds := removeAll d (fds w)\<rparr> else w\<lparr>errno := EBADF\<rparr>)"

definition getenv :: "world \<Rightarrow> string \<Rightarrow> string option" where
  "getenv w v = map_of (env w) v"

subsection \<open>\<open>std::filesystem::path\<close> on POSIX\<close>

text \<open>
  A POSIX path keeps the string it was built from. \<open>p /= q\<close> replaces \<open>p\<close> by \<open>q\<close>
  when \<open>q\<close> is absolute; otherwise it appends a separator if \<open>p\<close> has a filename
  (is not empty and does not end in a separator) and then appends \<open>q\<close>. \<open>p += s\<close>
  appends the characters of \<open>s\<close>.
\<close>

definition is_absolute :: "string \<Rightarrow> bool" where
  "is_absolute q = (case q of [] \<Rightarrow> False | c # _ \<Rightarrow> c = CHR ''/'')"

definition has_filename :: "string \<Rightarrow> bool" where
  "has_filename p = (p \<noteq> [] \<and> last p \<noteq> CHR ''/'')"

definition path_append :: "string \<Rightarrow> string \<Rightarrow> string" where
  "path_append p q =
     (if is_absolute q then q
      else if has_filename p then p @ ''/'' @ q
      else p @ q)"

definition path_concat :: "string \<Rightarrow> string \<Rightarrow> string" where
  "path_concat p s = p @ s"

section \<open>\<open>detail::make_filename\<close>\<close>

definition kRandomPattern :: string where
  "kRandomPattern = ''XXXXXX''"

definition env_variables :: "string list" where
  "env_variables = [''TMPDIR'', ''TMP'', ''TEMP'', ''TEMPDIR'']"

text \<open>The loop over \<open>env_variables\<close>: the first variable that is set wins (\<open>break\<close>).\<close>

fun tmp_directory_loop :: "world \<Rightarrow> string list \<Rightarrow> string \<Rightarrow> string" where
  "tmp_directory_loop w [] tmp_directory = tmp_directory"
| "tmp_directory_loop w (variable # rest) tmp_directory =
     (case getenv w variable of
        Some path \<Rightarrow> path
      | None \<Rightarrow> tmp_directory_loop w rest tmp_directory)"

definition make_filename :: "world \<Rightarrow> string \<Rightarrow> string" where
  "make_filename w name_prefix =
     (let tmp_directory = tmp_directory_loop w env_variables ''/tmp'';
          filename = path_append tmp_directory name_prefix
      in path_concat filename kRandomPattern)"

text \<open>
  The pattern as the specification words it: base directory, a separator, the prefix,
  six placeholders; and the base directory as the specification words it.
\<close>

definition spec_base_dir :: "world \<Rightarrow> string" where
  "spec_base_dir w =
     (case getenv w ''TMPDIR'' of Some v \<Rightarrow> v | None \<Rightarrow>
     (case getenv w ''TMP'' of Some v \<Rightarrow> v | None \<Rightarrow>
     (case getenv w ''TEMP'' of Some v \<Rightarrow> v | None \<Rightarrow>
     (case getenv w ''TEMPDIR'' of Some v \<Rightarrow> v | None \<Rightarrow> ''/tmp''))))"

definition spec_pattern :: "string \<Rightarrow> string \<Rightarrow> string" where
  "spec_pattern base name_prefix = base @ ''/'' @ name_prefix @ ''XXXXXX''"

section \<open>The operating-system calls\<close>

text \<open>
  None of these is code of the repository: they belong to the C library, to Win32 and
  to the C++ standard library, and each is written after its documented contract.
  Every call consumes one entry of the script. \<open>Refuse e\<close> is a call the system
  refuses with error number \<open>e\<close>; \<open>Grant s\<close> is a call it is willing to serve, with the
  characters \<open>s\<close> it proposes for the name.
\<close>

definition ends_with_pattern :: "string \<Rightarrow> bool" where
  "ends_with_pattern tmpl =
     (6 \<le> length tmpl \<and> drop (length tmpl - 6) tmpl = ''XXXXXX'')"

definition stem :: "string \<Rightarrow> string" where
  "stem tmpl = take (length tmpl - 6) tmpl"

text \<open>The system replaces the placeholders by six characters, none of them a separator.\<close>

definition usable_suffix :: "string \<Rightarrow> bool" where
  "usable_suffix sfx = (length sfx = 6 \<and> CHR ''/'' \<notin> set sfx)"

fun lowest_unused :: "int list \<Rightarrow> nat \<Rightarrow> int \<Rightarrow> int" where
  "lowest_unused used 0 d = d"
| "lowest_unused used (Suc n) d =
     (if d \<in> set used then lowest_unused used n (d + 1) else d)"

definition fresh_fd :: "int list \<Rightarrow> int" where
  "fresh_fd used = lowest_unused used (length used) 0"

text \<open>
  \<open>mkstemp(template)\<close>: the template must end in \<open>XXXXXX\<close> (\<open>EINVAL\<close> otherwise). On
  success the six characters are overwritten in place, the file of that name is created
  exclusively (it did not exist before) and opened, and the lowest unused descriptor is
  returned. On failure the result is \<open>-1\<close>, \<open>errno\<close> is set and nothing is created;
  a proposal that is no valid choice of name, or is taken, ends as \<open>EEXIST\<close>.
  The result is the new world, the descriptor and the contents of the buffer.
\<close>

definition mkstemp :: "world \<Rightarrow> string \<Rightarrow> world \<times> int \<times> string" where
  "mkstemp w tmpl =
     (if \<not> ends_with_pattern tmpl then ((tick w)\<lparr>errno := EINVAL\<rparr>, - 1, tmpl)
      else case script w (clock w) of
        Refuse e \<Rightarrow> ((tick w)\<lparr>errno := e\<rparr>, - 1, tmpl)
      | Grant sfx \<Rightarrow>
          if \<not> usable_suffix sfx \<or> lookup (fs w) (stem tmpl @ sfx) \<noteq> None
          then ((tick w)\<lparr>errno := EEXIST\<rparr>, - 1, tmpl)
          else ((tick w)\<lparr>fs := (stem tmpl @ sfx, File) # fs w,
                          fds := fresh_fd (fds w) # fds w\<rparr>,
                fresh_fd (fds w), stem tmpl @ sfx))"

text \<open>
  \<open>mkdtemp(template)\<close>: as \<open>mkstemp\<close>, but it creates a directory and returns the
  buffer, or a null pointer (\<open>None\<close>) on failure.
\<close>

definition mkdtemp :: "world \<Rightarrow> string \<Rightarrow> world \<times> string option" where
  "mkdtemp w tmpl =
     (if \<not> ends_with_pattern tmpl then ((tick w)\<lparr>errno := EINVAL\<rparr>, None)
      else case script w (clock w) of
        Refuse e \<Rightarrow> ((tick w)\<lparr>errno := e\<rparr>, None)
      | Grant sfx \<Rightarrow>
          if \<not> usable_suffix sfx \<or> lookup (fs w) (stem tmpl @ sfx) \<noteq> None
          then ((tick w)\<lparr>errno := EEXIST\<rparr>, None)
          else ((tick w)\<lparr>fs := (stem tmpl @ sfx, Dir) # fs w\<rparr>, Some (stem tmpl @ sfx)))"

text \<open>
  \<open>tmpnam_s(name, size)\<close> on Windows: writes a file name into the zero-initialised
  buffer and returns \<open>0\<close>, or returns an error number. It creates nothing. The name
  is that of a file that does not exist, and the function generates a different name
  each time it is called; a proposal that names an existing file or repeats a name
  already handed out ends as an error.
\<close>

definition tmpnam_s :: "world \<Rightarrow> world \<times> int \<times> string" where
  "tmpnam_s w =
     (case script w (clock w) of
        Refuse e \<Rightarrow> (tick w, e, [])
      | Grant nm \<Rightarrow>
          if nm \<in> set (issued w) \<or> lookup (fs w) nm \<noteq> None then (tick w, ENOENT, [])
          else ((tick w)\<lparr>issued := nm # issued w\<rparr>, 0, nm))"

text \<open>
  \<open>std::filesystem::create_directories(p, ec)\<close> on Windows, together with the value
  \<open>GetLastError()\<close> reads afterwards: \<open>true\<close> when the directory was created; \<open>false\<close>
  with \<open>ERROR_ALREADY_EXISTS\<close> when the name is taken; \<open>false\<close> with the system's
  error number when the system refuses.
\<close>

definition create_directories :: "world \<Rightarrow> string \<Rightarrow> world \<times> bool" where
  "create_directories w p =
     (case lookup (fs w) p of
        Some _ \<Rightarrow> ((tick w)\<lparr>last_error := ERROR_ALREADY_EXISTS\<rparr>, False)
      | None \<Rightarrow>
          (case script w (clock w) of
             Refuse e \<Rightarrow> ((tick w)\<lparr>last_error := e\<rparr>, False)
           | Grant _ \<Rightarrow> ((tick w)\<lparr>fs := (p, Dir) # fs w\<rparr>, True)))"

definition GetLastError :: "world \<Rightarrow> int" where
  "GetLastError w = last_error w"

text \<open>
  Modelled from the spec: \<open>TORCH_WARN\<close> and \<open>TORCH_CHECK\<close>, macros of
  \<open>c10/util/Exception.h\<close>, which is not among the sources. A failed name generation
  shows, in the specification's words, as the empty result and nothing else: the
  warning goes to the log. A failed check "fails fatally with an error that includes
  the underlying OS error description": it throws an error whose message is the
  arguments of the macro, one after the other.
\<close>

definition TORCH_WARN :: "world \<Rightarrow> string \<Rightarrow> world" where
  "TORCH_WARN w msg = w\<lparr>warnings := warnings w @ [msg]\<rparr>"

definition TORCH_CHECK_failure :: "string list \<Rightarrow> fault" where
  "TORCH_CHECK_failure args = TorchError (concat args)"

text \<open>The Windows variant of \<open>detail::make_filename\<close>.\<close>

definition make_filename_win32 :: "world \<Rightarrow> world \<times> string" where
  "make_filename_win32 w =
     (case tmpnam_s w of
        (w1, res, nm) \<Rightarrow>
          if res \<noteq> 0 then (TORCH_WARN w1 ''Error generating temporary file'', [])
          else (w1, nm))"

section \<open>\<open>TempFile\<close> and \<open>TempDir\<close>\<close>

record TempFile =
  fd :: int
  name :: string

record TempDir =
  name :: string

text \<open>
  The move constructor of \<open>std::string\<close> hands the characters to the new string and
  leaves its source empty (libstdc++, libc++ and the Microsoft library all do; the
  language standard promises a valid string only). The pair is (target, source
  afterwards).
\<close>

definition string_move :: "string \<Rightarrow> string \<times> string" where
  "string_move s = (s, [])"

definition TempFile_ctor :: "string \<Rightarrow> int \<Rightarrow> TempFile" where
  "TempFile_ctor nm d = \<lparr>fd = d, TempFile.name = nm\<rparr>"

text \<open>
  Move construction builds a new object: the result is the new object and the source
  as the constructor leaves it.
\<close>

definition TempFile_move :: "TempFile \<Rightarrow> TempFile \<times> TempFile" where
  "TempFile_move other =
     (case string_move (TempFile.name other) of
        (nm, rest) \<Rightarrow>
          (\<lparr>fd = fd other, TempFile.name = nm\<rparr>, \<lparr>fd = - 1, TempFile.name = rest\<rparr>))"

text \<open>
  Move assignment works on two objects that exist already and may be one and the same
  (\<open>t = std::move(t)\<close>; the operator has no guard). The objects live in a store, at
  the addresses \<open>this\<close> and \<open>other\<close>, and the statements of the operator run in their
  order. Whatever \<open>name = std::move(other.name)\<close> leaves in \<open>other.name\<close> is cleared by
  the next statement.
\<close>

definition TempFile_move_assign ::
  "(nat \<Rightarrow> TempFile) \<Rightarrow> nat \<Rightarrow> nat \<Rightarrow> (nat \<Rightarrow> TempFile)" where
  "TempFile_move_assign h this other =
     (let h1 = h(this := (h this)\<lparr>fd := fd (h other)\<rparr>);
          h2 = h1(other := (h1 other)\<lparr>fd := - 1\<rparr>);
          h3 = h2(this := (h2 this)\<lparr>TempFile.name := TempFile.name (h2 other)\<rparr>);
          h4 = h3(other := (h3 other)\<lparr>TempFile.name := []\<rparr>)
      in h4)"

text \<open>
  The destructor. An exception that leaves a destructor ends the program
  (\<open>std::terminate\<close>): the result is the world and \<open>Some Terminated\<close>.
\<close>

definition TempFile_dtor :: "platform \<Rightarrow> world \<Rightarrow> TempFile \<Rightarrow> world \<times> fault option" where
  "TempFile_dtor pf w t =
     (if TempFile.name t \<noteq> [] then
        (case fs_remove w (TempFile.name t) of
           None \<Rightarrow> (w, Some Terminated)
         | Some (w1, _) \<Rightarrow>
             if pf = Posix then
               (if 0 \<le> fd t then (posix_close w1 (fd t), None) else (w1, None))
             else (w1, None))
      else (w, None))"

definition TempDir_ctor :: "string \<Rightarrow> TempDir" where
  "TempDir_ctor nm = \<lparr>TempDir.name = nm\<rparr>"

definition TempDir_move :: "TempDir \<Rightarrow> TempDir \<times> TempDir" where
  "TempDir_move other = (\<lparr>TempDir.name = TempDir.name other\<rparr>, other\<lparr>TempDir.name := []\<rparr>)"

definition TempDir_move_assign ::
  "(nat \<Rightarrow> TempDir) \<Rightarrow> nat \<Rightarrow> nat \<Rightarrow> (nat \<Rightarrow> TempDir)" where
  "TempDir_move_assign h this other =
     (let h1 = h(this := (h this)\<lparr>TempDir.name := TempDir.name (h other)\<rparr>);
          h2 = h1(other := (h1 other)\<lparr>TempDir.name := []\<rparr>)
      in h2)"

definition TempDir_dtor :: "world \<Rightarrow> TempDir \<Rightarrow> world \<times> fault option" where
  "TempDir_dtor w t =
     (if TempDir.name t \<noteq> [] then
        (case fs_remove w (TempDir.name t) of
           None \<Rightarrow> (w, Some Terminated)
         | Some (w1, _) \<Rightarrow> (w1, None))
      else (w, None))"

section \<open>The factories\<close>

text \<open>
  \<open>return TempFile(...)\<close> from a function that returns an optional: the temporary is
  moved into the optional and then destroyed.
\<close>

definition return_TempFile ::
  "platform \<Rightarrow> world \<Rightarrow> TempFile \<Rightarrow> world \<times> (fault + TempFile option)" where
  "return_TempFile pf w tmp =
     (case TempFile_move tmp of
        (held, tmp') \<Rightarrow>
          (case TempFile_dtor pf w tmp' of
             (w1, Some f) \<Rightarrow> (w1, Inl f)
           | (w1, None) \<Rightarrow> (w1, Inr (Some held))))"

definition return_TempDir :: "world \<Rightarrow> TempDir \<Rightarrow> world \<times> (fault + TempDir option)" where
  "return_TempDir w tmp =
     (case TempDir_move tmp of
        (held, tmp') \<Rightarrow>
          (case TempDir_dtor w tmp' of
             (w1, Some f) \<Rightarrow> (w1, Inl f)
           | (w1, None) \<Rightarrow> (w1, Inr (Some held))))"

definition try_make_tempfile ::
  "platform \<Rightarrow> world \<Rightarrow> string \<Rightarrow> world \<times> (fault + TempFile option)" where
  "try_make_tempfile pf w name_prefix =
     (case (case pf of Win32 \<Rightarrow> make_filename_win32 w
                     | Posix \<Rightarrow> (w, make_filename w name_prefix)) of
        (w1, filename) \<Rightarrow>
          if filename = [] then (w1, Inr None)
          else (case pf of
                  Win32 \<Rightarrow> return_TempFile pf w1 (TempFile_ctor filename (- 1))
                | Posix \<Rightarrow>
                    (case mkstemp w1 filename of
                       (w2, d, filename') \<Rightarrow>
                         if d = - 1 then (w2, Inr None)
                         else return_TempFile pf w2 (TempFile_ctor filename' d))))"

text \<open>
  \<open>make_tempfile\<close>: \<open>return std::move(*tempfile)\<close> moves the file out of the
  optional, whose destructor then destroys what the move left; otherwise the check
  fails. \<open>strerror\<close> is the C library's table of error descriptions, a parameter.
\<close>

definition make_tempfile ::
  "platform \<Rightarrow> (int \<Rightarrow> string) \<Rightarrow> world \<Rightarrow> string \<Rightarrow> world \<times> (fault + TempFile)" where
  "make_tempfile pf strerror w name_prefix =
     (case try_make_tempfile pf w name_prefix of
        (w1, Inl f) \<Rightarrow> (w1, Inl f)
      | (w1, Inr (Some tempfile)) \<Rightarrow>
          (case TempFile_move tempfile of
             (result, rest) \<Rightarrow>
               (case TempFile_dtor pf w1 rest of
                  (w2, Some f) \<Rightarrow> (w2, Inl f)
                | (w2, None) \<Rightarrow> (w2, Inr result)))
      | (w1, Inr None) \<Rightarrow>
          (w1, Inl (TORCH_CHECK_failure
                      [''Error generating temporary file: '', strerror (errno w1)])))"

text \<open>One pass through the body of the Windows loop; \<open>None\<close> is falling through to the
  next iteration.\<close>

definition tempdir_attempt :: "world \<Rightarrow> world \<times> (fault + TempDir option) option" where
  "tempdir_attempt w =
     (case make_filename_win32 w of
        (w1, dirname) \<Rightarrow>
          if dirname = [] then (w1, Some (Inr None))
          else (case create_directories w1 dirname of
                  (w2, created) \<Rightarrow>
                    if created then
                      (case return_TempDir w2 (TempDir_ctor dirname) of (w3, r) \<Rightarrow> (w3, Some r))
                    else if GetLastError w2 \<noteq> ERROR_ALREADY_EXISTS then (w2, Some (Inr None))
                    else (w2, None)))"

function tempdir_loop :: "nat \<Rightarrow> world \<Rightarrow> world \<times> (fault + TempDir option)" where
  "tempdir_loop i w =
     (if i < 100 then
        (case tempdir_attempt w of
           (w1, Some r) \<Rightarrow> (w1, r)
         | (w1, None) \<Rightarrow> tempdir_loop (Suc i) w1)
      else (w, Inr None))"
  by pat_completeness auto
termination
  by (relation "measure (\<lambda>(i, w). 100 - i)") auto

declare tempdir_loop.simps [simp del]

definition try_make_tempdir ::
  "platform \<Rightarrow> world \<Rightarrow> string \<Rightarrow> world \<times> (fault + TempDir option)" where
  "try_make_tempdir pf w name_prefix =
     (case pf of
        Win32 \<Rightarrow> tempdir_loop 0 w
      | Posix \<Rightarrow>
          (case mkdtemp w (make_filename w name_prefix) of
             (w1, None) \<Rightarrow> (w1, Inr None)
           | (w1, Some dirname) \<Rightarrow> return_TempDir w1 (TempDir_ctor dirname)))"

definition make_tempdir ::
  "platform \<Rightarrow> (int \<Rightarrow> string) \<Rightarrow> world \<Rightarrow> string \<Rightarrow> world \<times> (fault + TempDir)" where
  "make_tempdir pf strerror w name_prefix =
     (case try_make_tempdir pf w name_prefix of
        (w1, Inl f) \<Rightarrow> (w1, Inl f)
      | (w1, Inr (Some tempdir)) \<Rightarrow>
          (case TempDir_move tempdir of
             (result, rest) \<Rightarrow>
               (case TempDir_dtor w1 rest of
                  (w2, Some f) \<Rightarrow> (w2, Inl f)
                | (w2, None) \<Rightarrow> (w2, Inr result)))
      | (w1, Inr None) \<Rightarrow>
          (w1, Inl (TORCH_CHECK_failure
                      [''Error generating temporary directory: '', strerror (errno w1)])))"

section \<open>Notions the properties are stated with\<close>

text \<open>
  The three outcomes of a removal, read off the world. It succeeds when the system
  serves it and what is at the path is a file or a directory without entries; it is
  refused, and throws, when the system answers with an error other than \<open>ENOENT\<close> or
  the path is a directory that still has entries; otherwise there is nothing to delete.
\<close>

definition removable :: "world \<Rightarrow> string \<Rightarrow> bool" where
  "removable w p =
     (case script w (clock w) of
        Refuse e \<Rightarrow> False
      | Grant _ \<Rightarrow> lookup (fs w) p \<noteq> None \<and> \<not> (is_directory w p \<and> has_entries (fs w) p))"

definition removal_refused :: "world \<Rightarrow> string \<Rightarrow> bool" where
  "removal_refused w p =
     (case script w (clock w) of
        Refuse e \<Rightarrow> e \<noteq> ENOENT
      | Grant _ \<Rightarrow> is_directory w p \<and> has_entries (fs w) p)"

text \<open>
  A client that calls \<open>make_tempfile\<close> \<open>n\<close> times in sequence with the same prefix and
  keeps every returned value alive: no destructor runs between the calls.
\<close>

fun make_tempfiles ::
  "platform \<Rightarrow> (int \<Rightarrow> string) \<Rightarrow> nat \<Rightarrow> world \<Rightarrow> string \<Rightarrow> world \<times> (fault + TempFile list)" where
  "make_tempfiles pf se 0 w p = (w, Inr [])"
| "make_tempfiles pf se (Suc n) w p =
     (case make_tempfile pf se w p of
        (w1, Inl f) \<Rightarrow> (w1, Inl f)
      | (w1, Inr t) \<Rightarrow>
          (case make_tempfiles pf se n w1 p of
             (w2, Inl f) \<Rightarrow> (w2, Inl f)
           | (w2, Inr ts) \<Rightarrow> (w2, Inr (t # ts))))"

text \<open>
  The retry policy of the Windows \<open>try_make_tempdir\<close> as the specification words it:
  at most \<open>n\<close> attempts; each generates a name and tries to create the directory; a
  failed name generation or a creation error other than "already exists" gives the
  empty result at once, "already exists" goes on to the next attempt, a created
  directory is returned at once, and no attempt left gives the empty result.
\<close>

primrec retry_spec :: "nat \<Rightarrow> world \<Rightarrow> world \<times> (fault + TempDir option)" where
  "retry_spec 0 w = (w, Inr None)"
| "retry_spec (Suc n) w =
     (case make_filename_win32 w of
        (w1, dirname) \<Rightarrow>
          if dirname = [] then (w1, Inr None)
          else (case create_directories w1 dirname of
                  (w2, created) \<Rightarrow>
                    if created then (w2, Inr (Some \<lparr>TempDir.name = dirname\<rparr>))
                    else if GetLastError w2 = ERROR_ALREADY_EXISTS then retry_spec n w2
                    else (w2, Inr None)))"

text \<open>The final component of a path: what follows its last separator.\<close>

definition last_component :: "string \<Rightarrow> string" where
  "last_component p = rev (takeWhile (\<lambda>c. c \<noteq> CHR ''/'') (rev p))"

subsection \<open>Concrete worlds\<close>

text \<open>
  The worlds the examples run in. On POSIX: one whose \<open>TMPDIR\<close> is set to the empty
  string; one with a directory that holds a file; one with a temporary file and its
  descriptor \<open>3\<close> open, and the same where the system refuses every call with
  \<open>EACCES\<close>; one with an empty temporary directory; one that refuses every call; one
  that serves the calls. On Windows: one where \<open>tmpnam_s\<close> proposes a fresh name; one
  where it proposes the same name on every call; one where every creation of a
  directory finds the name taken by someone else; and one where that happens twice
  before a creation succeeds.
\<close>

definition w_empty_tmpdir :: world where
  "w_empty_tmpdir = \<lparr>env = [(''TMPDIR'', [])], fs = [], fds = [], errno = 0, last_error = 0,
     script = (\<lambda>_. Refuse 0), clock = 0, issued = [], warnings = []\<rparr>"

definition w_full_dir :: world where
  "w_full_dir = \<lparr>env = [], fs = [(''/tmp/d'', Dir), (''/tmp/d/f'', File)], fds = [0, 1, 2],
     errno = 0, last_error = 0, script = (\<lambda>_. Grant []), clock = 0, issued = [],
     warnings = []\<rparr>"

definition w_owned :: world where
  "w_owned = \<lparr>env = [], fs = [(''/tmp/torch-file-a1B2c3'', File), (''/tmp'', Dir)],
     fds = [3, 0, 1, 2], errno = 0, last_error = 0, script = (\<lambda>_. Grant []), clock = 1,
     issued = [], warnings = []\<rparr>"

definition w_denied :: world where
  "w_denied = \<lparr>env = [], fs = [(''/tmp/torch-file-a1B2c3'', File), (''/tmp'', Dir)],
     fds = [3, 0, 1, 2], errno = 0, last_error = 0, script = (\<lambda>_. Refuse 13), clock = 1,
     issued = [], warnings = []\<rparr>"

definition w_owned_dir :: world where
  "w_owned_dir = \<lparr>env = [], fs = [(''/tmp/torch-dir-a1B2c3'', Dir), (''/tmp'', Dir)],
     fds = [0, 1, 2], errno = 0, last_error = 0, script = (\<lambda>_. Grant []), clock = 1,
     issued = [], warnings = []\<rparr>"

definition strerror_table :: "int \<Rightarrow> string" where
  "strerror_table e =
     (if e = 13 then ''Permission denied''
      else if e = 17 then ''File exists''
      else if e = 22 then ''Invalid argument''
      else ''Unknown error'')"

definition w_refusing :: world where
  "w_refusing = \<lparr>env = [], fs = [(''/tmp'', Dir)], fds = [0, 1, 2], errno = 0, last_error = 0,
     script = (\<lambda>_. Refuse 13), clock = 0, issued = [], warnings = []\<rparr>"

definition w_granting :: world where
  "w_granting = \<lparr>env = [], fs = [(''/tmp'', Dir)], fds = [0, 1, 2], errno = 0, last_error = 0,
     script = (\<lambda>n. if n = 0 then Grant ''a1B2c3'' else Grant ''Zz9Yy8''), clock = 0,
     issued = [], warnings = []\<rparr>"

definition w_win32 :: world where
  "w_win32 = \<lparr>env = [], fs = [(''C:/Temp'', Dir)], fds = [0, 1, 2], errno = 0, last_error = 0,
     script = (\<lambda>_. Grant ''C:/Temp/s1k4.0''), clock = 0, issued = [], warnings = []\<rparr>"

definition w_win32_two :: world where
  "w_win32_two = \<lparr>env = [], fs = [(''C:/Temp'', Dir)], fds = [0, 1, 2], errno = 0,
     last_error = 0,
     script = (\<lambda>n. if n = 0 then Grant ''C:/Temp/s1k4.0'' else Grant ''C:/Temp/s1k4.1''),
     clock = 0, issued = [], warnings = []\<rparr>"

text \<open>
  In the last two worlds the calls alternate: \<open>tmpnam_s\<close> at the even positions of the
  script, each with a name of its own, the creation of the directory at the odd ones.
  \<open>always_taken\<close> holds of the worlds the first of them runs through.
\<close>

definition candidate :: "nat \<Rightarrow> string" where
  "candidate n = ''C:/Temp/s'' @ replicate n (CHR ''a'')"

definition w_taken :: world where
  "w_taken = \<lparr>env = [], fs = [(''C:/Temp'', Dir)], fds = [0, 1, 2], errno = 0, last_error = 0,
     script = (\<lambda>n. if even n then Grant (candidate n) else Refuse 183),
     clock = 0, issued = [], warnings = []\<rparr>"

definition w_third :: world where
  "w_third = \<lparr>env = [], fs = [(''C:/Temp'', Dir)], fds = [0, 1, 2], errno = 0, last_error = 0,
     script = (\<lambda>n. if even n then Grant (candidate n)
                    else if n < 4 then Refuse 183 else Grant []),
     clock = 0, issued = [], warnings = []\<rparr>"

definition always_taken :: "world \<Rightarrow> bool" where
  "always_taken w =
     (fs w = fs w_taken \<and> script w = script w_taken \<and> even (clock w) \<and>
      (\<forall>nm \<in> set (issued w). \<exists>j < clock w. nm = candidate j))"

text \<open>
  The owners the examples move: a \<open>TempFile\<close> and a \<open>TempDir\<close>, and stores that hold
  them at address \<open>1\<close> and empty objects everywhere else.
\<close>

definition store_two :: "nat \<Rightarrow> TempFile" where
  "store_two =
     (\<lambda>_. \<lparr>fd = - 1, TempFile.name = []\<rparr>)
       (Suc 0 := \<lparr>fd = 3, TempFile.name = ''/tmp/torch-file-a1B2c3''\<rparr>)"

definition store_dirs :: "nat \<Rightarrow> TempDir" where
  "store_dirs =
     (\<lambda>_. \<lparr>TempDir.name = []\<rparr>)(Suc 0 := \<lparr>TempDir.name = ''/tmp/torch-dir-a1B2c3''\<rparr>)"

definition file_owner :: TempFile where
  "file_owner = \<lparr>fd = 3, TempFile.name = ''/tmp/torch-file-a1B2c3''\<rparr>"

definition dir_owner :: TempDir where
  "dir_owner = \<lparr>TempDir.name = ''/tmp/torch-dir-a1B2c3''\<rparr>"

section \<open>The name pattern\<close>

lemma tmp_directory_loop_spec: "tmp_directory_loop w env_variables ''/tmp'' = spec_base_dir w"
  by (simp add: env_variables_def spec_base_dir_def split: option.splits)

text \<open>
  Claim C6, as amended. The pattern is the base directory joined with the prefix by
  \<open>std::filesystem::path::operator/=\<close>, followed by the six placeholders \<open>XXXXXX\<close>.
  The base directory is the value of the first of \<open>TMPDIR\<close>, \<open>TMP\<close>, \<open>TEMP\<close>,
  \<open>TEMPDIR\<close> that is set (an empty value counts as set) and \<open>/tmp\<close> when none is. The
  join gives \<open>base/prefix\<close> when the base is not empty, does not end in a separator and
  the prefix is not absolute; it adds no separator after an empty base or a base that
  ends in one; and an absolute prefix replaces the base.
\<close>

theorem make_filename_pattern:
  "make_filename w p =
     (if is_absolute p then p @ ''XXXXXX''
      else if has_filename (spec_base_dir w) then spec_pattern (spec_base_dir w) p
      else spec_base_dir w @ p @ ''XXXXXX'')"
  by (simp add: make_filename_def tmp_directory_loop_spec path_append_def path_concat_def
      kRandomPattern_def spec_pattern_def)

text \<open>
  With nothing set in the environment and the default prefix, the pattern is the one
  the claim gives.
\<close>

theorem make_filename_pattern_witness:
  "\<not> is_absolute ''torch-file-'' \<and> has_filename (spec_base_dir w_granting) \<and>
   spec_base_dir w_granting = ''/tmp'' \<and>
   make_filename w_granting ''torch-file-'' = ''/tmp/torch-file-XXXXXX''"
  using make_filename_pattern [of w_granting "''torch-file-''"]
  by (simp add: spec_base_dir_def getenv_def w_granting_def is_absolute_def has_filename_def
      spec_pattern_def)

text \<open>
  The claim as it was stated fails when \<open>TMPDIR\<close> is set to the empty string: the
  pattern is then relative, \<open>torch-file-XXXXXX\<close>, not \<open>/torch-file-XXXXXX\<close>. It also
  fails for a prefix that starts with a separator, which replaces the base directory.
\<close>

theorem make_filename_empty_base_counterexample:
  "spec_base_dir w_empty_tmpdir = [] \<and>
   make_filename w_empty_tmpdir ''torch-file-'' = ''torch-file-XXXXXX'' \<and>
   spec_pattern (spec_base_dir w_empty_tmpdir) ''torch-file-'' = ''/torch-file-XXXXXX'' \<and>
   make_filename w_empty_tmpdir ''torch-file-'' \<noteq>
     spec_pattern (spec_base_dir w_empty_tmpdir) ''torch-file-'' \<and>
   spec_base_dir w_granting = ''/tmp'' \<and>
   make_filename w_granting ''/x-'' = ''/x-XXXXXX'' \<and>
   make_filename w_granting ''/x-'' \<noteq> spec_pattern (spec_base_dir w_granting) ''/x-''"
  by (simp add: make_filename_def env_variables_def getenv_def w_empty_tmpdir_def
      w_granting_def spec_base_dir_def path_append_def path_concat_def kRandomPattern_def
      spec_pattern_def is_absolute_def has_filename_def)

section \<open>Destruction\<close>

lemma lookup_unlink_same: "lookup (unlink p tbl) p = None"
  by (induction tbl) (auto simp: lookup_def unlink_def)

lemma lookup_unlink_other: "q \<noteq> p \<Longrightarrow> lookup (unlink p tbl) q = lookup tbl q"
  by (induction tbl) (auto simp: lookup_def unlink_def)

lemma fs_remove_removable:
  assumes "removable w p"
  shows "fs_remove w p = Some ((tick w)\<lparr>fs := unlink p (fs w)\<rparr>, True)"
proof (cases "script w (clock w)")
  case (Refuse e)
  with assms show ?thesis by (simp add: removable_def)
next
  case (Grant s)
  with assms obtain n where n: "lookup (fs w) p = Some n"
    by (auto simp: removable_def)
  with assms Grant show ?thesis
    by (cases n) (auto simp: fs_remove_def removable_def is_directory_def)
qed

lemma fs_remove_refused: "fs_remove w p = None \<longleftrightarrow> removal_refused w p"
  by (auto simp: fs_remove_def removal_refused_def is_directory_def
      split: os_answer.splits option.splits node.splits)

lemma fs_remove_nothing:
  assumes "\<not> removable w p" and "\<not> removal_refused w p"
  shows "fs_remove w p = Some (tick w, False)"
  using assms
  by (auto simp: fs_remove_def removable_def removal_refused_def is_directory_def
      split: os_answer.splits option.splits node.splits)

lemma removable_not_refused: "removable w p \<Longrightarrow> \<not> removal_refused w p"
  by (auto simp: removable_def removal_refused_def split: os_answer.splits)

lemma fs_tick: "fs (tick w) = fs w"
  by (simp add: tick_def)

lemma fds_tick: "fds (tick w) = fds w"
  by (simp add: tick_def)

lemma fs_posix_close: "fs (posix_close w d) = fs w"
  by (simp add: posix_close_def)

lemma fds_posix_close: "d \<notin> set (fds (posix_close w d))"
  by (simp add: posix_close_def)

lemma TempFile_dtor_cases:
  assumes "TempFile.name t \<noteq> []"
  shows "TempFile_dtor pf w t =
     (case fs_remove w (TempFile.name t) of
        None \<Rightarrow> (w, Some Terminated)
      | Some (w1, b) \<Rightarrow>
          (if pf = Posix \<and> 0 \<le> fd t then posix_close w1 (fd t) else w1, None))"
  using assms by (auto simp: TempFile_dtor_def split: option.splits)

lemma TempDir_dtor_cases:
  assumes "TempDir.name t \<noteq> []"
  shows "TempDir_dtor w t =
     (case fs_remove w (TempDir.name t) of
        None \<Rightarrow> (w, Some Terminated)
      | Some (w1, b) \<Rightarrow> (w1, None))"
  using assms by (auto simp: TempDir_dtor_def split: option.splits)

text \<open>
  Claim C1, as amended. A \<open>TempFile\<close> or \<open>TempDir\<close> with a non-empty name is destroyed
  by a call of \<open>std::filesystem::remove\<close> on the name. When the removal succeeds (the
  system serves it and the path is a file or a directory without entries) the
  destructor completes, nothing exists at the path afterwards, and a \<open>TempFile\<close> on
  POSIX with a descriptor \<open>fd >= 0\<close> has closed it. When the removal is refused (the
  system answers with an error other than \<open>ENOENT\<close>, or the path is a directory that
  still has entries) it throws inside the destructor: the program is terminated, the
  world is as it was and the descriptor stays open. When there is nothing to delete
  the destructor completes and leaves the filesystem as it was.
\<close>

theorem destructor_removes:
  assumes "nm \<noteq> []"
  shows "if removable w nm
         then snd (TempFile_dtor pf w \<lparr>fd = d, TempFile.name = nm\<rparr>) = None \<and>
              lookup (fs (fst (TempFile_dtor pf w \<lparr>fd = d, TempFile.name = nm\<rparr>))) nm = None \<and>
              (pf = Posix \<and> 0 \<le> d \<longrightarrow>
                 d \<notin> set (fds (fst (TempFile_dtor pf w \<lparr>fd = d, TempFile.name = nm\<rparr>)))) \<and>
              snd (TempDir_dtor w \<lparr>TempDir.name = nm\<rparr>) = None \<and>
              lookup (fs (fst (TempDir_dtor w \<lparr>TempDir.name = nm\<rparr>))) nm = None
         else if removal_refused w nm
         then TempFile_dtor pf w \<lparr>fd = d, TempFile.name = nm\<rparr> = (w, Some Terminated) \<and>
              TempDir_dtor w \<lparr>TempDir.name = nm\<rparr> = (w, Some Terminated)
         else snd (TempFile_dtor pf w \<lparr>fd = d, TempFile.name = nm\<rparr>) = None \<and>
              fs (fst (TempFile_dtor pf w \<lparr>fd = d, TempFile.name = nm\<rparr>)) = fs w \<and>
              (pf = Posix \<and> 0 \<le> d \<longrightarrow>
                 d \<notin> set (fds (fst (TempFile_dtor pf w \<lparr>fd = d, TempFile.name = nm\<rparr>)))) \<and>
              snd (TempDir_dtor w \<lparr>TempDir.name = nm\<rparr>) = None \<and>
              fs (fst (TempDir_dtor w \<lparr>TempDir.name = nm\<rparr>)) = fs w"
proof (cases "removable w nm")
  case True
  with assms show ?thesis
    by (simp add: TempFile_dtor_cases TempDir_dtor_cases fs_remove_removable fs_posix_close
        fds_posix_close lookup_unlink_same)
next
  case False
  show ?thesis
  proof (cases "removal_refused w nm")
    case True
    then have "fs_remove w nm = None" by (simp add: fs_remove_refused)
    with assms False True show ?thesis
      by (simp add: TempFile_dtor_cases TempDir_dtor_cases)
  next
    case nr: False
    from fs_remove_nothing [OF False nr] assms False nr show ?thesis
      by (simp add: TempFile_dtor_cases TempDir_dtor_cases fs_posix_close fds_posix_close
          fs_tick)
  qed
qed

theorem destructor_removes_witness:
  "''/tmp/torch-file-a1B2c3'' \<noteq> [] \<and> removable w_owned ''/tmp/torch-file-a1B2c3'' \<and>
   is_regular_file w_owned ''/tmp/torch-file-a1B2c3'' \<and> 3 \<in> set (fds w_owned) \<and>
   snd (TempFile_dtor Posix w_owned \<lparr>fd = 3, TempFile.name = ''/tmp/torch-file-a1B2c3''\<rparr>) = None \<and>
   lookup (fs (fst (TempFile_dtor Posix w_owned
       \<lparr>fd = 3, TempFile.name = ''/tmp/torch-file-a1B2c3''\<rparr>))) ''/tmp/torch-file-a1B2c3'' = None \<and>
   3 \<notin> set (fds (fst (TempFile_dtor Posix w_owned
       \<lparr>fd = 3, TempFile.name = ''/tmp/torch-file-a1B2c3''\<rparr>))) \<and>
   ''/tmp/torch-dir-a1B2c3'' \<noteq> [] \<and> removable w_owned_dir ''/tmp/torch-dir-a1B2c3'' \<and>
   is_directory w_owned_dir ''/tmp/torch-dir-a1B2c3'' \<and>
   snd (TempDir_dtor w_owned_dir \<lparr>TempDir.name = ''/tmp/torch-dir-a1B2c3''\<rparr>) = None \<and>
   lookup (fs (fst (TempDir_dtor w_owned_dir \<lparr>TempDir.name = ''/tmp/torch-dir-a1B2c3''\<rparr>)))
     ''/tmp/torch-dir-a1B2c3'' = None \<and>
   \<not> removable w_denied ''/tmp/torch-file-a1B2c3'' \<and>
   removal_refused w_denied ''/tmp/torch-file-a1B2c3'' \<and>
   TempFile_dtor Posix w_denied \<lparr>fd = 3, TempFile.name = ''/tmp/torch-file-a1B2c3''\<rparr> =
     (w_denied, Some Terminated) \<and>
   \<not> removable w_owned ''/tmp/gone'' \<and> \<not> removal_refused w_owned ''/tmp/gone'' \<and>
   snd (TempFile_dtor Posix w_owned \<lparr>fd = 3, TempFile.name = ''/tmp/gone''\<rparr>) = None \<and>
   fs (fst (TempFile_dtor Posix w_owned \<lparr>fd = 3, TempFile.name = ''/tmp/gone''\<rparr>)) = fs w_owned"
proof -
  have r: "removable w_owned ''/tmp/torch-file-a1B2c3''"
    by (simp add: removable_def is_directory_def lookup_def w_owned_def)
  have f: "is_regular_file w_owned ''/tmp/torch-file-a1B2c3'' \<and> 3 \<in> set (fds w_owned)"
    by (simp add: is_regular_file_def lookup_def w_owned_def)
  have rd: "removable w_owned_dir ''/tmp/torch-dir-a1B2c3''"
    by (simp add: removable_def is_directory_def lookup_def w_owned_dir_def has_entries_def
        lies_below_def as_directory_def)
  have fd: "is_directory w_owned_dir ''/tmp/torch-dir-a1B2c3''"
    by (simp add: is_directory_def lookup_def w_owned_dir_def)
  have nr: "\<not> removable w_denied ''/tmp/torch-file-a1B2c3'' \<and>
      removal_refused w_denied ''/tmp/torch-file-a1B2c3''"
    by (simp add: removable_def removal_refused_def w_denied_def ENOENT_def)
  have ng: "\<not> removable w_owned ''/tmp/gone'' \<and> \<not> removal_refused w_owned ''/tmp/gone''"
    by (simp add: removable_def removal_refused_def is_directory_def lookup_def w_owned_def)
  show ?thesis
    using destructor_removes [of "''/tmp/torch-file-a1B2c3''" w_owned Posix 3]
      destructor_removes [of "''/tmp/torch-dir-a1B2c3''" w_owned_dir Posix 3]
      destructor_removes [of "''/tmp/torch-file-a1B2c3''" w_denied Posix 3]
      destructor_removes [of "''/tmp/gone''" w_owned Posix 3] r f rd fd nr ng
    by simp
qed

text \<open>
  The claim as it was stated fails for a directory that still holds a file, and for a
  file whose removal the system refuses: the destructor removes neither, and the
  program is terminated.
\<close>

theorem TempDir_dtor_nonempty_counterexample:
  "TempDir.name (TempDir_ctor ''/tmp/d'') \<noteq> [] \<and>
   snd (TempDir_dtor w_full_dir (TempDir_ctor ''/tmp/d'')) = Some Terminated \<and>
   is_directory (fst (TempDir_dtor w_full_dir (TempDir_ctor ''/tmp/d''))) ''/tmp/d'' \<and>
   TempFile.name (TempFile_ctor ''/tmp/torch-file-a1B2c3'' 3) \<noteq> [] \<and>
   snd (TempFile_dtor Posix w_denied (TempFile_ctor ''/tmp/torch-file-a1B2c3'' 3)) =
     Some Terminated \<and>
   is_regular_file (fst (TempFile_dtor Posix w_denied (TempFile_ctor ''/tmp/torch-file-a1B2c3'' 3)))
     ''/tmp/torch-file-a1B2c3''"
  by (simp add: TempDir_dtor_def TempDir_ctor_def TempFile_dtor_def TempFile_ctor_def
      w_full_dir_def w_denied_def fs_remove_def lookup_def has_entries_def lies_below_def
      as_directory_def is_directory_def is_regular_file_def ENOENT_def)

text \<open>
  Claim C10. The destructor of a \<open>TempFile\<close> whose name is empty does nothing at all:
  the world afterwards is the world before, so nothing was removed and the descriptor,
  even one that is \<open>>= 0\<close> and open, was not closed.
\<close>

theorem empty_name_dtor_is_noop:
  assumes "TempFile.name t = []"
  shows "TempFile_dtor pf w t = (w, None)"
  using assms by (simp add: TempFile_dtor_def)

theorem empty_name_dtor_is_noop_witness:
  "TempFile.name (TempFile_ctor [] 3) = [] \<and> 0 \<le> fd (TempFile_ctor [] 3) \<and>
   3 \<in> set (fds w_owned) \<and>
   TempFile_dtor Posix w_owned (TempFile_ctor [] 3) = (w_owned, None)"
proof -
  have n: "TempFile.name (TempFile_ctor [] 3) = []" by (simp add: TempFile_ctor_def)
  have o: "3 \<in> set (fds w_owned)" by (simp add: w_owned_def)
  show ?thesis
    using empty_name_dtor_is_noop [OF n, of Posix w_owned] n o by (simp add: TempFile_ctor_def)
qed

section \<open>Moves\<close>

lemma TempFile_move_parts:
  "TempFile_move t = (t, \<lparr>fd = - 1, TempFile.name = []\<rparr>)"
  by (simp add: TempFile_move_def string_move_def)

lemma TempDir_move_parts:
  "TempDir_move t = (t, \<lparr>TempDir.name = []\<rparr>)"
  by (simp add: TempDir_move_def)

lemma TempFile_move_assign_distinct:
  assumes "this \<noteq> other"
  shows "TempFile_move_assign h this other =
           h(this := h other, other := \<lparr>fd = - 1, TempFile.name = []\<rparr>)"
  using assms by (auto simp: TempFile_move_assign_def Let_def fun_eq_iff)

lemma TempFile_move_assign_self:
  "TempFile_move_assign h this this = h(this := \<lparr>fd = - 1, TempFile.name = []\<rparr>)"
  by (auto simp: TempFile_move_assign_def Let_def fun_eq_iff)

lemma TempDir_move_assign_distinct:
  assumes "this \<noteq> other"
  shows "TempDir_move_assign h this other =
           h(this := h other, other := \<lparr>TempDir.name = []\<rparr>)"
  using assms by (auto simp: TempDir_move_assign_def Let_def fun_eq_iff)

lemma TempDir_move_assign_self:
  "TempDir_move_assign h this this = h(this := \<lparr>TempDir.name = []\<rparr>)"
  by (auto simp: TempDir_move_assign_def Let_def fun_eq_iff)

lemma TempFile_dtor_removes:
  assumes "TempFile.name t \<noteq> []" and "removable w (TempFile.name t)"
  shows "snd (TempFile_dtor pf w t) = None \<and>
         lookup (fs (fst (TempFile_dtor pf w t))) (TempFile.name t) = None"
  using assms
  by (simp add: TempFile_dtor_cases fs_remove_removable fs_posix_close lookup_unlink_same)

lemma TempDir_dtor_removes:
  assumes "TempDir.name t \<noteq> []" and "removable w (TempDir.name t)"
  shows "snd (TempDir_dtor w t) = None \<and>
         lookup (fs (fst (TempDir_dtor w t))) (TempDir.name t) = None"
  using assms
  by (simp add: TempDir_dtor_cases fs_remove_removable lookup_unlink_same)

text \<open>
  Claim C4, as amended. A move by construction, or by assignment between two distinct
  objects, hands the descriptor and the name to the target and leaves the source with
  an empty name and, for a \<open>TempFile\<close>, the descriptor \<open>-1\<close>; no other object changes.
  Destroying the source afterwards leaves the world as it is: nothing is removed. The
  target is the value the source was, so destroying it is the destruction the source
  would have had: it removes the resource when the removal succeeds. Assigning an
  object to itself by move leaves it with an empty name (and the descriptor \<open>-1\<close>), so
  that no destructor removes the resource.
\<close>

theorem move_transfers_ownership:
  "TempFile_move t = (t, \<lparr>fd = - 1, TempFile.name = []\<rparr>) \<and>
   TempDir_move d = (d, \<lparr>TempDir.name = []\<rparr>) \<and>
   (this \<noteq> other \<longrightarrow>
      TempFile_move_assign h this other this = h other \<and>
      TempFile_move_assign h this other other = \<lparr>fd = - 1, TempFile.name = []\<rparr> \<and>
      (\<forall>a. a \<noteq> this \<and> a \<noteq> other \<longrightarrow> TempFile_move_assign h this other a = h a) \<and>
      TempDir_move_assign g this other this = g other \<and>
      TempDir_move_assign g this other other = \<lparr>TempDir.name = []\<rparr> \<and>
      (\<forall>a. a \<noteq> this \<and> a \<noteq> other \<longrightarrow> TempDir_move_assign g this other a = g a)) \<and>
   TempFile_move_assign h this this this = \<lparr>fd = - 1, TempFile.name = []\<rparr> \<and>
   TempDir_move_assign g this this this = \<lparr>TempDir.name = []\<rparr> \<and>
   TempFile_dtor pf w \<lparr>fd = - 1, TempFile.name = []\<rparr> = (w, None) \<and>
   TempDir_dtor w \<lparr>TempDir.name = []\<rparr> = (w, None) \<and>
   TempFile_dtor pf w (fst (TempFile_move t)) = TempFile_dtor pf w t \<and>
   TempDir_dtor w (fst (TempDir_move d)) = TempDir_dtor w d \<and>
   (TempFile.name t \<noteq> [] \<and> removable w (TempFile.name t) \<longrightarrow>
      snd (TempFile_dtor pf w (fst (TempFile_move t))) = None \<and>
      lookup (fs (fst (TempFile_dtor pf w (fst (TempFile_move t))))) (TempFile.name t) = None) \<and>
   (TempDir.name d \<noteq> [] \<and> removable w (TempDir.name d) \<longrightarrow>
      snd (TempDir_dtor w (fst (TempDir_move d))) = None \<and>
      lookup (fs (fst (TempDir_dtor w (fst (TempDir_move d))))) (TempDir.name d) = None)"
proof -
  have fe: "TempFile_dtor pf w \<lparr>fd = - 1, TempFile.name = []\<rparr> = (w, None)"
    by (simp add: TempFile_dtor_def)
  have de: "TempDir_dtor w \<lparr>TempDir.name = []\<rparr> = (w, None)"
    by (simp add: TempDir_dtor_def)
  have a: "this \<noteq> other \<longrightarrow>
      TempFile_move_assign h this other this = h other \<and>
      TempFile_move_assign h this other other = \<lparr>fd = - 1, TempFile.name = []\<rparr> \<and>
      (\<forall>a. a \<noteq> this \<and> a \<noteq> other \<longrightarrow> TempFile_move_assign h this other a = h a) \<and>
      TempDir_move_assign g this other this = g other \<and>
      TempDir_move_assign g this other other = \<lparr>TempDir.name = []\<rparr> \<and>
      (\<forall>a. a \<noteq> this \<and> a \<noteq> other \<longrightarrow> TempDir_move_assign g this other a = g a)"
    by (simp add: TempFile_move_assign_distinct TempDir_move_assign_distinct)
  have s: "TempFile_move_assign h this this this = \<lparr>fd = - 1, TempFile.name = []\<rparr> \<and>
      TempDir_move_assign g this this this = \<lparr>TempDir.name = []\<rparr>"
    by (simp add: TempFile_move_assign_self TempDir_move_assign_self)
  have fr: "TempFile.name t \<noteq> [] \<and> removable w (TempFile.name t) \<longrightarrow>
      snd (TempFile_dtor pf w t) = None \<and>
      lookup (fs (fst (TempFile_dtor pf w t))) (TempFile.name t) = None"
    using TempFile_dtor_removes [of t w pf] by blast
  have dr: "TempDir.name d \<noteq> [] \<and> removable w (TempDir.name d) \<longrightarrow>
      snd (TempDir_dtor w d) = None \<and>
      lookup (fs (fst (TempDir_dtor w d))) (TempDir.name d) = None"
    using TempDir_dtor_removes [of d w] by blast
  show ?thesis
    unfolding TempFile_move_parts TempDir_move_parts fst_conv
    using fe de a s fr dr by blast
qed

theorem move_transfers_ownership_witness:
  "0 \<noteq> Suc 0 \<and>
   TempFile.name file_owner \<noteq> [] \<and>
   removable w_owned (TempFile.name file_owner) \<and>
   is_regular_file w_owned (TempFile.name file_owner) \<and>
   TempFile_move_assign store_two 0 (Suc 0) 0 = file_owner \<and>
   TempFile_move_assign store_two 0 (Suc 0) (Suc 0) = \<lparr>fd = - 1, TempFile.name = []\<rparr> \<and>
   is_regular_file (fst (TempFile_dtor Posix w_owned (snd (TempFile_move file_owner))))
     (TempFile.name file_owner) \<and>
   \<not> is_regular_file (fst (TempFile_dtor Posix w_owned (fst (TempFile_move file_owner))))
     (TempFile.name file_owner) \<and>
   TempDir.name dir_owner \<noteq> [] \<and>
   removable w_owned_dir (TempDir.name dir_owner) \<and>
   is_directory w_owned_dir (TempDir.name dir_owner) \<and>
   is_directory (fst (TempDir_dtor w_owned_dir (snd (TempDir_move dir_owner))))
     (TempDir.name dir_owner) \<and>
   \<not> is_directory (fst (TempDir_dtor w_owned_dir (fst (TempDir_move dir_owner))))
     (TempDir.name dir_owner)"
proof -
  have ne: "0 \<noteq> Suc 0" by simp
  have n: "TempFile.name file_owner \<noteq> []"
    by (simp add: file_owner_def)
  have r: "removable w_owned (TempFile.name file_owner)"
    by (simp add: removable_def is_directory_def lookup_def w_owned_def file_owner_def)
  have f: "is_regular_file w_owned (TempFile.name file_owner)"
    by (simp add: is_regular_file_def lookup_def w_owned_def file_owner_def)
  have nd: "TempDir.name dir_owner \<noteq> []"
    by (simp add: dir_owner_def)
  have rd: "removable w_owned_dir (TempDir.name dir_owner)"
    by (simp add: removable_def is_directory_def lookup_def w_owned_dir_def has_entries_def
        lies_below_def as_directory_def dir_owner_def)
  have fd: "is_directory w_owned_dir (TempDir.name dir_owner)"
    by (simp add: is_directory_def lookup_def w_owned_dir_def dir_owner_def)
  note m = move_transfers_ownership
    [of file_owner dir_owner 0 "Suc 0" store_two store_dirs Posix w_owned]
  note k = move_transfers_ownership
    [of file_owner dir_owner 0 "Suc 0" store_two store_dirs Posix w_owned_dir]
  from m ne have a0: "TempFile_move_assign store_two 0 (Suc 0) 0 = store_two (Suc 0)"
    by blast
  from m ne have a1: "TempFile_move_assign store_two 0 (Suc 0) (Suc 0) =
      \<lparr>fd = - 1, TempFile.name = []\<rparr>"
    by blast
  from m have mv: "TempFile_move file_owner = (file_owner, \<lparr>fd = - 1, TempFile.name = []\<rparr>)"
    by blast
  from m have e: "TempFile_dtor Posix w_owned \<lparr>fd = - 1, TempFile.name = []\<rparr> =
      (w_owned, None)"
    by blast
  from m n r have g: "lookup (fs (fst (TempFile_dtor Posix w_owned
      (fst (TempFile_move file_owner))))) (TempFile.name file_owner) = None"
    by blast
  from k have mvd: "TempDir_move dir_owner = (dir_owner, \<lparr>TempDir.name = []\<rparr>)"
    by blast
  from k have ed: "TempDir_dtor w_owned_dir \<lparr>TempDir.name = []\<rparr> = (w_owned_dir, None)"
    by blast
  from k nd rd have gd: "lookup (fs (fst (TempDir_dtor w_owned_dir
      (fst (TempDir_move dir_owner))))) (TempDir.name dir_owner) = None"
    by blast
  from mv e have s1: "fst (TempFile_dtor Posix w_owned (snd (TempFile_move file_owner))) =
      w_owned"
    by simp
  from mvd ed have s2: "fst (TempDir_dtor w_owned_dir (snd (TempDir_move dir_owner))) =
      w_owned_dir"
    by simp
  from a0 have a0': "TempFile_move_assign store_two 0 (Suc 0) 0 = file_owner"
    by (simp add: store_two_def file_owner_def)
  from ne n r f nd rd fd g gd a0' a1 show ?thesis
    unfolding s1 s2 by (simp add: is_regular_file_def is_directory_def)
qed

text \<open>
  The claim as it was stated fails where the destruction of the target removes
  nothing: after a move of a \<open>TempDir\<close> whose directory still holds a file, and after
  a move assignment of a \<open>TempFile\<close> to itself, which leaves the one object empty while
  the file stays.
\<close>

theorem move_target_keeps_resource_counterexample:
  "snd (TempDir_dtor w_full_dir (fst (TempDir_move \<lparr>TempDir.name = ''/tmp/d''\<rparr>))) =
     Some Terminated \<and>
   is_directory (fst (TempDir_dtor w_full_dir (fst (TempDir_move \<lparr>TempDir.name = ''/tmp/d''\<rparr>))))
     ''/tmp/d'' \<and>
   TempFile_move_assign
     (\<lambda>_. \<lparr>fd = 3, TempFile.name = ''/tmp/torch-file-a1B2c3''\<rparr>) 0 0 0 =
     \<lparr>fd = - 1, TempFile.name = []\<rparr> \<and>
   is_regular_file
     (fst (TempFile_dtor Posix w_owned
        (TempFile_move_assign
           (\<lambda>_. \<lparr>fd = 3, TempFile.name = ''/tmp/torch-file-a1B2c3''\<rparr>) 0 0 0)))
     ''/tmp/torch-file-a1B2c3''"
  by (simp add: TempDir_move_def TempDir_dtor_def TempFile_move_assign_def TempFile_dtor_def
      Let_def w_full_dir_def w_owned_def fs_remove_def lookup_def has_entries_def
      lies_below_def as_directory_def is_directory_def is_regular_file_def)

section \<open>Properties of the factories\<close>

lemma return_TempFile_plain: "return_TempFile pf w t = (w, Inr (Some t))"
  by (simp add: return_TempFile_def TempFile_move_parts TempFile_dtor_def)

lemma return_TempDir_plain: "return_TempDir w t = (w, Inr (Some t))"
  by (simp add: return_TempDir_def TempDir_move_parts TempDir_dtor_def)

lemma make_filename_nonempty: "make_filename w p \<noteq> []"
  by (simp add: make_filename_def path_concat_def kRandomPattern_def)

lemma lowest_unused_ge: "d \<le> lowest_unused used n d"
proof (induction n arbitrary: d)
  case 0
  show ?case by simp
next
  case (Suc n)
  have "d + 1 \<le> lowest_unused used n (d + 1)" by (rule Suc.IH)
  then show ?case by simp
qed

lemma fresh_fd_nonneg: "0 \<le> fresh_fd used"
  by (simp add: fresh_fd_def lowest_unused_ge)

lemma try_make_tempfile_posix:
  "try_make_tempfile Posix w p =
     (case mkstemp w (make_filename w p) of
        (w2, d, nm) \<Rightarrow>
          if d = - 1 then (w2, Inr None)
          else (w2, Inr (Some \<lparr>fd = d, TempFile.name = nm\<rparr>)))"
  by (simp add: try_make_tempfile_def make_filename_nonempty return_TempFile_plain
      TempFile_ctor_def split: prod.splits)

lemma try_make_tempfile_win32:
  "try_make_tempfile Win32 w p =
     (case make_filename_win32 w of
        (w1, nm) \<Rightarrow>
          if nm = [] then (w1, Inr None)
          else (w1, Inr (Some \<lparr>fd = - 1, TempFile.name = nm\<rparr>)))"
  by (simp add: try_make_tempfile_def return_TempFile_plain TempFile_ctor_def split: prod.splits)

lemma try_make_tempfile_no_fault: "\<exists>r. snd (try_make_tempfile pf w p) = Inr r"
  by (cases pf) (auto simp: try_make_tempfile_posix try_make_tempfile_win32 split: prod.splits)

lemma make_tempfile_plain:
  "make_tempfile pf se w p =
     (case try_make_tempfile pf w p of
        (w1, Inr (Some t)) \<Rightarrow> (w1, Inr t)
      | (w1, Inr None) \<Rightarrow>
          (w1, Inl (TorchError (''Error generating temporary file: '' @ se (errno w1))))
      | (w1, Inl f) \<Rightarrow> (w1, Inl f))"
  by (simp add: make_tempfile_def TempFile_move_parts TempFile_dtor_def TORCH_CHECK_failure_def
      split: prod.splits sum.splits option.splits)

lemma tempdir_attempt_no_fault: "snd (tempdir_attempt w) \<noteq> Some (Inl f)"
  by (auto simp: tempdir_attempt_def return_TempDir_plain split: prod.splits)

lemma tempdir_loop_no_fault: "\<exists>r. snd (tempdir_loop i w) = Inr r"
proof (induction i w rule: tempdir_loop.induct)
  case (1 i w)
  show ?case
  proof (cases "i < 100")
    case False
    then show ?thesis by (simp add: tempdir_loop.simps [of i w])
  next
    case True
    obtain w1 a where a: "tempdir_attempt w = (w1, a)" by (cases "tempdir_attempt w")
    show ?thesis
    proof (cases a)
      case None
      with a True "1.IH" [of w1 a] show ?thesis
        by (simp add: tempdir_loop.simps [of i w])
    next
      case (Some r)
      with a tempdir_attempt_no_fault [of w] have "\<exists>v. r = Inr v"
        by (cases r) auto
      with a Some True show ?thesis by (auto simp: tempdir_loop.simps [of i w])
    qed
  qed
qed

lemma try_make_tempdir_posix:
  "try_make_tempdir Posix w p =
     (case mkdtemp w (make_filename w p) of
        (w1, None) \<Rightarrow> (w1, Inr None)
      | (w1, Some dirname) \<Rightarrow> (w1, Inr (Some \<lparr>TempDir.name = dirname\<rparr>)))"
  by (simp add: try_make_tempdir_def return_TempDir_plain TempDir_ctor_def
      split: prod.splits option.splits)

lemma try_make_tempdir_no_fault: "\<exists>r. snd (try_make_tempdir pf w p) = Inr r"
proof (cases pf)
  case Posix
  then show ?thesis by (auto simp: try_make_tempdir_posix split: prod.splits option.splits)
next
  case Win32
  then show ?thesis by (simp add: try_make_tempdir_def tempdir_loop_no_fault)
qed

lemma make_tempdir_plain:
  "make_tempdir pf se w p =
     (case try_make_tempdir pf w p of
        (w1, Inr (Some t)) \<Rightarrow> (w1, Inr t)
      | (w1, Inr None) \<Rightarrow>
          (w1, Inl (TorchError (''Error generating temporary directory: '' @ se (errno w1))))
      | (w1, Inl f) \<Rightarrow> (w1, Inl f))"
  by (simp add: make_tempdir_def TempDir_move_parts TempDir_dtor_def TORCH_CHECK_failure_def
      split: prod.splits sum.splits option.splits)

lemma mkstemp_failure_keeps:
  "fst (snd (mkstemp w tmpl)) = - 1 \<Longrightarrow>
     fs (fst (mkstemp w tmpl)) = fs w \<and> fds (fst (mkstemp w tmpl)) = fds w"
  using fresh_fd_nonneg [of "fds w"]
  by (auto simp: mkstemp_def tick_def split: os_answer.splits if_splits)

lemma make_filename_win32_keeps:
  "fs (fst (make_filename_win32 w)) = fs w \<and> fds (fst (make_filename_win32 w)) = fds w"
  by (auto simp: make_filename_win32_def tmpnam_s_def tick_def TORCH_WARN_def
      split: os_answer.splits)

text \<open>
  Claim C8. When \<open>try_make_tempfile\<close> returns the empty result, the filesystem is what
  it was before the call: no file was created (and no descriptor is left open).
\<close>

theorem try_make_tempfile_failure_creates_nothing:
  assumes "snd (try_make_tempfile pf w p) = Inr None"
  shows "fs (fst (try_make_tempfile pf w p)) = fs w \<and>
         fds (fst (try_make_tempfile pf w p)) = fds w"
proof (cases pf)
  case Posix
  obtain w2 d nm where m: "mkstemp w (make_filename w p) = (w2, d, nm)"
    by (cases "mkstemp w (make_filename w p)") auto
  with assms Posix have "d = - 1"
    by (simp add: try_make_tempfile_posix split: if_splits)
  with m mkstemp_failure_keeps [of w "make_filename w p"] Posix show ?thesis
    by (simp add: try_make_tempfile_posix)
next
  case Win32
  with make_filename_win32_keeps [of w] show ?thesis
    by (auto simp: try_make_tempfile_win32 split: prod.splits)
qed

theorem try_make_tempfile_failure_creates_nothing_witness:
  "snd (try_make_tempfile Posix w_refusing ''torch-file-'') = Inr None \<and>
   fs (fst (try_make_tempfile Posix w_refusing ''torch-file-'')) = fs w_refusing \<and>
   fds (fst (try_make_tempfile Posix w_refusing ''torch-file-'')) = fds w_refusing"
proof -
  have n: "snd (try_make_tempfile Posix w_refusing ''torch-file-'') = Inr None"
    by (simp add: try_make_tempfile_posix mkstemp_def make_filename_def env_variables_def
        getenv_def path_append_def path_concat_def kRandomPattern_def is_absolute_def
        has_filename_def ends_with_pattern_def w_refusing_def tick_def)
  from try_make_tempfile_failure_creates_nothing [OF n] n show ?thesis by simp
qed

text \<open>
  Claim C3. \<open>make_tempfile\<close> (and \<open>make_tempdir\<close>) ends in an error exactly when
  \<open>try_make_tempfile\<close> (\<open>try_make_tempdir\<close>) returns the empty result; the error is then
  the \<open>TORCH_CHECK\<close> failure whose message ends in \<open>strerror(errno)\<close>, the system's
  description of the error number. On a non-empty result the value it holds is
  returned as it is, in the world \<open>try_make_*\<close> left.
\<close>

theorem make_raises_iff_try_is_empty:
  "((\<exists>f. snd (make_tempfile pf se w p) = Inl f) \<longleftrightarrow>
      snd (try_make_tempfile pf w p) = Inr None) \<and>
   (snd (try_make_tempfile pf w p) = Inr None \<longrightarrow>
      make_tempfile pf se w p =
        (fst (try_make_tempfile pf w p),
         Inl (TorchError (''Error generating temporary file: '' @
                se (errno (fst (try_make_tempfile pf w p))))))) \<and>
   (\<forall>t. snd (try_make_tempfile pf w p) = Inr (Some t) \<longrightarrow>
      make_tempfile pf se w p = (fst (try_make_tempfile pf w p), Inr t)) \<and>
   ((\<exists>f. snd (make_tempdir pf se w p) = Inl f) \<longleftrightarrow>
      snd (try_make_tempdir pf w p) = Inr None) \<and>
   (snd (try_make_tempdir pf w p) = Inr None \<longrightarrow>
      make_tempdir pf se w p =
        (fst (try_make_tempdir pf w p),
         Inl (TorchError (''Error generating temporary directory: '' @
                se (errno (fst (try_make_tempdir pf w p))))))) \<and>
   (\<forall>t. snd (try_make_tempdir pf w p) = Inr (Some t) \<longrightarrow>
      make_tempdir pf se w p = (fst (try_make_tempdir pf w p), Inr t))"
proof -
  obtain w1 r where f: "try_make_tempfile pf w p = (w1, Inr r)"
    using try_make_tempfile_no_fault [of pf w p]
    by (cases "try_make_tempfile pf w p") auto
  obtain w2 q where d: "try_make_tempdir pf w p = (w2, Inr q)"
    using try_make_tempdir_no_fault [of pf w p]
    by (cases "try_make_tempdir pf w p") auto
  have a: "make_tempfile pf se w p =
      (case r of Some t \<Rightarrow> (w1, Inr t)
       | None \<Rightarrow> (w1, Inl (TorchError (''Error generating temporary file: '' @ se (errno w1)))))"
    using f by (simp add: make_tempfile_plain split: option.splits)
  have b: "make_tempdir pf se w p =
      (case q of Some t \<Rightarrow> (w2, Inr t)
       | None \<Rightarrow> (w2, Inl (TorchError (''Error generating temporary directory: '' @ se (errno w2)))))"
    using d by (simp add: make_tempdir_plain split: option.splits)
  show ?thesis
    unfolding a b f d by (cases r; cases q) simp_all
qed

theorem make_raises_iff_try_is_empty_witness:
  "snd (try_make_tempdir Posix w_refusing ''test-dir-'') = Inr None \<and>
   snd (make_tempdir Posix strerror_table w_refusing ''test-dir-'') =
     Inl (TorchError ''Error generating temporary directory: Permission denied'') \<and>
   snd (try_make_tempfile Posix w_granting ''test-pattern-'') =
     Inr (Some \<lparr>fd = 3, TempFile.name = ''/tmp/test-pattern-a1B2c3''\<rparr>) \<and>
   snd (make_tempfile Posix strerror_table w_granting ''test-pattern-'') =
     Inr \<lparr>fd = 3, TempFile.name = ''/tmp/test-pattern-a1B2c3''\<rparr>"
proof -
  have n: "try_make_tempdir Posix w_refusing ''test-dir-'' =
      (w_refusing\<lparr>clock := 1, errno := 13\<rparr>, Inr None)"
    by (simp add: try_make_tempdir_posix mkdtemp_def make_filename_def env_variables_def
        getenv_def path_append_def path_concat_def kRandomPattern_def is_absolute_def
        has_filename_def ends_with_pattern_def w_refusing_def tick_def)
  have s: "snd (try_make_tempfile Posix w_granting ''test-pattern-'') =
      Inr (Some \<lparr>fd = 3, TempFile.name = ''/tmp/test-pattern-a1B2c3''\<rparr>)"
    by (simp add: try_make_tempfile_posix mkstemp_def make_filename_def env_variables_def
        getenv_def path_append_def path_concat_def kRandomPattern_def is_absolute_def
        has_filename_def ends_with_pattern_def w_granting_def tick_def usable_suffix_def
        lookup_def stem_def fresh_fd_def)
  from make_raises_iff_try_is_empty [of Posix strerror_table w_refusing "''test-dir-''"]
    make_raises_iff_try_is_empty [of Posix strerror_table w_granting "''test-pattern-''"]
    n s show ?thesis by (simp add: strerror_table_def)
qed






text \<open>
  Claim C2 at the input where the code departs from it. On Windows
  \<open>make_tempfile("test-pattern-")\<close> returns a name that \<open>tmpnam_s\<close> generated and
  creates nothing: the filesystem is unchanged and the path names no regular file.
\<close>

theorem make_tempfile_win32_creates_no_file:
  "snd (make_tempfile Win32 strerror_table w_win32 ''test-pattern-'') =
     Inr \<lparr>fd = - 1, TempFile.name = ''C:/Temp/s1k4.0''\<rparr> \<and>
   fs (fst (make_tempfile Win32 strerror_table w_win32 ''test-pattern-'')) = fs w_win32 \<and>
   \<not> is_regular_file (fst (make_tempfile Win32 strerror_table w_win32 ''test-pattern-''))
       ''C:/Temp/s1k4.0''"
  by (simp add: make_tempfile_plain try_make_tempfile_win32 make_filename_win32_def
      tmpnam_s_def tick_def w_win32_def is_regular_file_def lookup_def)

subsection \<open>Files on POSIX\<close>

lemma last_component_append:
  assumes "CHR ''/'' \<notin> set s" and "d = [] \<or> last d = CHR ''/''"
  shows "last_component (d @ s) = s"
proof -
  have a: "takeWhile (\<lambda>c. c \<noteq> CHR ''/'') (rev d) = []"
  proof (cases d rule: rev_cases)
    case Nil
    then show ?thesis by simp
  next
    case (snoc ys y)
    with assms(2) show ?thesis by simp
  qed
  have "takeWhile (\<lambda>c. c \<noteq> CHR ''/'') (rev s @ rev d) =
      rev s @ takeWhile (\<lambda>c. c \<noteq> CHR ''/'') (rev d)"
    using assms(1) by (intro takeWhile_append2) auto
  with a show ?thesis by (simp add: last_component_def)
qed

lemma stem_pattern: "stem (x @ ''XXXXXX'') = x"
  by (simp add: stem_def)

lemma path_append_relative:
  assumes "CHR ''/'' \<notin> set p"
  shows "\<exists>d. path_append b p = d @ p \<and> (d = [] \<or> last d = CHR ''/'')"
proof -
  from assms have n: "\<not> is_absolute p"
    by (cases p) (auto simp: is_absolute_def)
  show ?thesis
  proof (cases "has_filename b")
    case True
    with n have "path_append b p = (b @ ''/'') @ p" by (simp add: path_append_def)
    moreover have "last (b @ ''/'') = CHR ''/''" by simp
    ultimately show ?thesis by blast
  next
    case False
    with n have "path_append b p = b @ p" by (simp add: path_append_def)
    moreover from False have "b = [] \<or> last b = CHR ''/''" by (auto simp: has_filename_def)
    ultimately show ?thesis by blast
  qed
qed

lemma mkstemp_success:
  assumes "mkstemp w tmpl = (w1, d, nm)" and "d \<noteq> - 1"
  shows "\<exists>sfx. usable_suffix sfx \<and> nm = stem tmpl @ sfx \<and> lookup (fs w) nm = None \<and>
           fs w1 = (nm, File) # fs w \<and> d = fresh_fd (fds w) \<and> fds w1 = d # fds w"
  using assms
  by (auto simp: mkstemp_def tick_def split: if_splits os_answer.splits)

text \<open>
  On POSIX a successful \<open>make_tempfile\<close> returns the path of a regular file that did
  not exist before the call, with its descriptor open; when the prefix holds no
  separator, the final component of the path is the prefix followed by the six
  characters the system chose.
\<close>

lemma make_tempfile_posix_creates_file:
  assumes "make_tempfile Posix se w p = (w1, Inr t)"
  shows "is_regular_file w1 (TempFile.name t) \<and> lookup (fs w) (TempFile.name t) = None \<and>
         0 \<le> fd t \<and> fd t \<in> set (fds w1) \<and>
         (CHR ''/'' \<notin> set p \<longrightarrow>
            (\<exists>sfx. length sfx = 6 \<and> last_component (TempFile.name t) = p @ sfx))"
proof -
  obtain w2 d nm where m: "mkstemp w (make_filename w p) = (w2, d, nm)"
    by (cases "mkstemp w (make_filename w p)") auto
  with assms have r: "d \<noteq> - 1" "w1 = w2" "t = \<lparr>fd = d, TempFile.name = nm\<rparr>"
    by (auto simp: make_tempfile_plain try_make_tempfile_posix split: if_splits)
  from mkstemp_success [OF m r(1)] obtain sfx where
    s: "usable_suffix sfx" "nm = stem (make_filename w p) @ sfx" "lookup (fs w) nm = None"
       "fs w2 = (nm, File) # fs w" "d = fresh_fd (fds w)" "fds w2 = d # fds w"
    by blast
  have a: "is_regular_file w1 (TempFile.name t)"
    using r s by (simp add: is_regular_file_def lookup_def)
  have b: "0 \<le> fd t \<and> fd t \<in> set (fds w1)"
    using r s fresh_fd_nonneg [of "fds w"] by simp
  have c: "CHR ''/'' \<notin> set p \<longrightarrow>
      (\<exists>sfx. length sfx = 6 \<and> last_component (TempFile.name t) = p @ sfx)"
  proof
    assume np: "CHR ''/'' \<notin> set p"
    from path_append_relative [OF np] obtain dd where
      dd: "path_append (tmp_directory_loop w env_variables ''/tmp'') p = dd @ p"
          "dd = [] \<or> last dd = CHR ''/''"
      by blast
    then have "make_filename w p = (dd @ p) @ ''XXXXXX''"
      by (simp add: make_filename_def path_concat_def kRandomPattern_def)
    then have "stem (make_filename w p) = dd @ p"
      by (simp only: stem_pattern)
    with s(2) have nm: "nm = dd @ (p @ sfx)" by simp
    from np s(1) have "CHR ''/'' \<notin> set (p @ sfx)" by (simp add: usable_suffix_def)
    from last_component_append [OF this dd(2)] nm have "last_component nm = p @ sfx" by simp
    with s(1) r(3) show "\<exists>sfx. length sfx = 6 \<and> last_component (TempFile.name t) = p @ sfx"
      by (auto simp: usable_suffix_def)
  qed
  from a b c s(3) r(3) show ?thesis by simp
qed

subsection \<open>Sequential calls\<close>

lemma make_tempfile_posix_success:
  assumes "make_tempfile Posix se w p = (w1, Inr t)"
  shows "lookup (fs w) (TempFile.name t) = None \<and> fs w1 = (TempFile.name t, File) # fs w"
proof -
  obtain w2 d nm where m: "mkstemp w (make_filename w p) = (w2, d, nm)"
    by (cases "mkstemp w (make_filename w p)") auto
  with assms have r: "d \<noteq> - 1 \<and> w1 = w2 \<and> t = \<lparr>fd = d, TempFile.name = nm\<rparr>"
    by (auto simp: make_tempfile_plain try_make_tempfile_posix split: if_splits)
  with m show ?thesis
    by (auto simp: mkstemp_def tick_def split: if_splits os_answer.splits)
qed

lemma make_tempfile_win32_success:
  assumes "make_tempfile Win32 se w p = (w1, Inr t)"
  shows "TempFile.name t \<notin> set (issued w) \<and> issued w1 = TempFile.name t # issued w"
  using assms
  by (auto simp: make_tempfile_plain try_make_tempfile_win32 make_filename_win32_def
      tmpnam_s_def tick_def TORCH_WARN_def ENOENT_def
      split: if_splits os_answer.splits prod.splits)

lemma make_tempfiles_posix_names:
  "make_tempfiles Posix se n w p = (w', Inr ts) \<Longrightarrow>
     distinct (map TempFile.name ts) \<and>
     (\<forall>t \<in> set ts. lookup (fs w) (TempFile.name t) = None) \<and>
     (\<forall>q. lookup (fs w) q \<noteq> None \<longrightarrow> lookup (fs w') q \<noteq> None)"
proof (induction n arbitrary: w w' ts)
  case 0
  then show ?case by simp
next
  case (Suc n)
  from Suc.prems obtain w1 t ts' where
    a: "make_tempfile Posix se w p = (w1, Inr t)" and
    b: "make_tempfiles Posix se n w1 p = (w', Inr ts')" and
    c: "ts = t # ts'"
    by (auto split: prod.splits sum.splits)
  from make_tempfile_posix_success [OF a] have
    f: "lookup (fs w) (TempFile.name t) = None" and
    g: "fs w1 = (TempFile.name t, File) # fs w"
    by simp_all
  from Suc.IH [OF b] have
    d: "distinct (map TempFile.name ts')" and
    e: "\<forall>u \<in> set ts'. lookup (fs w1) (TempFile.name u) = None" and
    h: "\<forall>q. lookup (fs w1) q \<noteq> None \<longrightarrow> lookup (fs w') q \<noteq> None"
    by simp_all
  from e g have i: "\<forall>u \<in> set ts'. TempFile.name u \<noteq> TempFile.name t \<and>
      lookup (fs w) (TempFile.name u) = None"
    by (auto simp: lookup_def split: if_splits)
  from h g have j: "\<forall>q. lookup (fs w) q \<noteq> None \<longrightarrow> lookup (fs w') q \<noteq> None"
    by (auto simp: lookup_def)
  from c d f i j show ?case by auto
qed

lemma make_tempfiles_win32_names:
  "make_tempfiles Win32 se n w p = (w', Inr ts) \<Longrightarrow>
     distinct (map TempFile.name ts) \<and>
     (\<forall>t \<in> set ts. TempFile.name t \<notin> set (issued w))"
proof (induction n arbitrary: w w' ts)
  case 0
  then show ?case by simp
next
  case (Suc n)
  from Suc.prems obtain w1 t ts' where
    a: "make_tempfile Win32 se w p = (w1, Inr t)" and
    b: "make_tempfiles Win32 se n w1 p = (w', Inr ts')" and
    c: "ts = t # ts'"
    by (auto split: prod.splits sum.splits)
  from make_tempfile_win32_success [OF a] have
    f: "TempFile.name t \<notin> set (issued w)" and
    g: "issued w1 = TempFile.name t # issued w"
    by simp_all
  from Suc.IH [OF b] have
    d: "distinct (map TempFile.name ts')" and
    e: "\<forall>u \<in> set ts'. TempFile.name u \<notin> set (issued w1)"
    by simp_all
  from e g have i: "\<forall>u \<in> set ts'. TempFile.name u \<noteq> TempFile.name t \<and>
      TempFile.name u \<notin> set (issued w)"
    by auto
  from c d f i show ?case by auto
qed

lemma make_tempfiles_length:
  "make_tempfiles pf se n w p = (w', Inr ts) \<Longrightarrow> length ts = n"
proof (induction n arbitrary: w w' ts)
  case 0
  then show ?case by simp
next
  case (Suc n)
  then show ?case by (auto split: prod.splits sum.splits)
qed

text \<open>
  Claim C9. Any number \<open>n\<close> of sequential calls of \<open>make_tempfile\<close> with the same
  prefix, all returned values alive, return \<open>n\<close> pairwise different paths. On POSIX
  each file still exists when the next call asks \<open>mkstemp\<close> for a name that does not
  exist. On Windows the code creates no file: the paths are the names \<open>tmpnam_s\<close>
  generates, a different one on each call.
\<close>

theorem sequential_tempfiles_distinct:
  assumes "make_tempfiles pf se n w p = (w', Inr ts)"
  shows "length ts = n \<and> distinct (map TempFile.name ts)"
proof -
  have "distinct (map TempFile.name ts)"
  proof (cases pf)
    case Posix
    with assms make_tempfiles_posix_names [of se n w p w' ts] show ?thesis by simp
  next
    case Win32
    with assms make_tempfiles_win32_names [of se n w p w' ts] show ?thesis by simp
  qed
  with make_tempfiles_length [OF assms] show ?thesis by simp
qed

theorem sequential_tempfiles_distinct_witness:
  "snd (make_tempfiles Posix strerror_table (Suc (Suc 0)) w_granting ''torch-file-'') =
      Inr [\<lparr>fd = 3, TempFile.name = ''/tmp/torch-file-a1B2c3''\<rparr>,
           \<lparr>fd = 4, TempFile.name = ''/tmp/torch-file-Zz9Yy8''\<rparr>] \<and>
   distinct (map TempFile.name
     [\<lparr>fd = 3, TempFile.name = ''/tmp/torch-file-a1B2c3''\<rparr>,
      \<lparr>fd = 4, TempFile.name = ''/tmp/torch-file-Zz9Yy8''\<rparr>]) \<and>
   snd (make_tempfiles Win32 strerror_table (Suc (Suc 0)) w_win32_two ''torch-file-'') =
      Inr [\<lparr>fd = - 1, TempFile.name = ''C:/Temp/s1k4.0''\<rparr>,
           \<lparr>fd = - 1, TempFile.name = ''C:/Temp/s1k4.1''\<rparr>] \<and>
   distinct (map TempFile.name
     [\<lparr>fd = - 1, TempFile.name = ''C:/Temp/s1k4.0''\<rparr>,
      \<lparr>fd = - 1, TempFile.name = ''C:/Temp/s1k4.1''\<rparr>])"
proof -
  have e: "snd (make_tempfiles Posix strerror_table (Suc (Suc 0)) w_granting ''torch-file-'') =
      Inr [\<lparr>fd = 3, TempFile.name = ''/tmp/torch-file-a1B2c3''\<rparr>,
           \<lparr>fd = 4, TempFile.name = ''/tmp/torch-file-Zz9Yy8''\<rparr>]"
    by (simp add: make_tempfile_plain try_make_tempfile_posix mkstemp_def make_filename_def
        env_variables_def getenv_def path_append_def path_concat_def kRandomPattern_def
        is_absolute_def has_filename_def ends_with_pattern_def w_granting_def tick_def
        usable_suffix_def lookup_def stem_def fresh_fd_def)
  then have m: "make_tempfiles Posix strerror_table (Suc (Suc 0)) w_granting ''torch-file-'' =
     (fst (make_tempfiles Posix strerror_table (Suc (Suc 0)) w_granting ''torch-file-''),
      Inr [\<lparr>fd = 3, TempFile.name = ''/tmp/torch-file-a1B2c3''\<rparr>,
           \<lparr>fd = 4, TempFile.name = ''/tmp/torch-file-Zz9Yy8''\<rparr>])"
    by (metis prod.collapse)
  have g: "snd (make_tempfiles Win32 strerror_table (Suc (Suc 0)) w_win32_two ''torch-file-'') =
      Inr [\<lparr>fd = - 1, TempFile.name = ''C:/Temp/s1k4.0''\<rparr>,
           \<lparr>fd = - 1, TempFile.name = ''C:/Temp/s1k4.1''\<rparr>]"
    by (simp add: make_tempfile_plain try_make_tempfile_win32 make_filename_win32_def
        tmpnam_s_def tick_def w_win32_two_def lookup_def)
  then have mw: "make_tempfiles Win32 strerror_table (Suc (Suc 0)) w_win32_two ''torch-file-'' =
     (fst (make_tempfiles Win32 strerror_table (Suc (Suc 0)) w_win32_two ''torch-file-''),
      Inr [\<lparr>fd = - 1, TempFile.name = ''C:/Temp/s1k4.0''\<rparr>,
           \<lparr>fd = - 1, TempFile.name = ''C:/Temp/s1k4.1''\<rparr>])"
    by (metis prod.collapse)
  from sequential_tempfiles_distinct [OF m] sequential_tempfiles_distinct [OF mw] e g
  show ?thesis by simp
qed

text \<open>
  Where \<open>tmpnam_s\<close> can only repeat the name it has handed out, the second call ends in
  the error; it does not return the first path again.
\<close>

lemma repeated_name_is_no_second_path:
  "snd (make_tempfiles Win32 strerror_table (Suc (Suc 0)) w_win32 ''torch-file-'') =
     Inl (TorchError ''Error generating temporary file: Unknown error'')"
  by (simp add: make_tempfile_plain try_make_tempfile_win32 make_filename_win32_def
      tmpnam_s_def tick_def TORCH_WARN_def w_win32_def lookup_def ENOENT_def
      strerror_table_def)

subsection \<open>The retry loop on Windows\<close>

lemma tempdir_attempt_spec:
  "tempdir_attempt w =
     (case make_filename_win32 w of
        (w1, dirname) \<Rightarrow>
          if dirname = [] then (w1, Some (Inr None))
          else (case create_directories w1 dirname of
                  (w2, created) \<Rightarrow>
                    if created then (w2, Some (Inr (Some \<lparr>TempDir.name = dirname\<rparr>)))
                    else if GetLastError w2 = ERROR_ALREADY_EXISTS then (w2, None)
                    else (w2, Some (Inr None))))"
  by (simp add: tempdir_attempt_def return_TempDir_plain TempDir_ctor_def split: prod.splits)

lemma retry_spec_attempt:
  "retry_spec (Suc n) w =
     (case tempdir_attempt w of
        (w1, Some r) \<Rightarrow> (w1, r)
      | (w1, None) \<Rightarrow> retry_spec n w1)"
  by (simp add: tempdir_attempt_spec split: prod.splits)

lemma tempdir_loop_retry: "i \<le> 100 \<Longrightarrow> tempdir_loop i w = retry_spec (100 - i) w"
proof (induction i w rule: tempdir_loop.induct)
  case (1 i w)
  show ?case
  proof (cases "i < 100")
    case False
    with "1.prems" have "i = 100" by simp
    then show ?thesis by (simp add: tempdir_loop.simps [of 100 w])
  next
    case True
    then have s: "100 - i = Suc (100 - Suc i)" by simp
    obtain w1 a where a: "tempdir_attempt w = (w1, a)" by (cases "tempdir_attempt w")
    show ?thesis
    proof (cases a)
      case None
      from True have "Suc i \<le> 100" by simp
      with "1.IH" [of w1 a] a None True
      have "tempdir_loop (Suc i) w1 = retry_spec (100 - Suc i) w1" by simp
      with a None True show ?thesis
        unfolding s retry_spec_attempt by (simp add: tempdir_loop.simps [of i w])
    next
      case (Some r)
      with a True show ?thesis
        unfolding s retry_spec_attempt by (simp add: tempdir_loop.simps [of i w])
    qed
  qed
qed

lemma clock_make_filename_win32: "clock (fst (make_filename_win32 w)) = Suc (clock w)"
  by (simp add: make_filename_win32_def tmpnam_s_def tick_def TORCH_WARN_def
      split: os_answer.splits)

lemma clock_create_directories: "clock (fst (create_directories w p)) = Suc (clock w)"
  by (simp add: create_directories_def tick_def split: option.splits os_answer.splits)

lemma clock_retry_spec: "clock (fst (retry_spec n w)) \<le> clock w + 2 * n"
proof (induction n arbitrary: w)
  case 0
  show ?case by simp
next
  case (Suc n)
  obtain w1 dirname where a: "make_filename_win32 w = (w1, dirname)"
    by (cases "make_filename_win32 w")
  obtain w2 created where b: "create_directories w1 dirname = (w2, created)"
    by (cases "create_directories w1 dirname")
  from a clock_make_filename_win32 [of w] have c1: "clock w1 = Suc (clock w)" by simp
  from b clock_create_directories [of w1 dirname] c1 have c2: "clock w2 = Suc (Suc (clock w))"
    by simp
  from Suc.IH [of w2] c2 have "clock (fst (retry_spec n w2)) \<le> clock w + 2 * Suc n" by simp
  with a b c1 c2 show ?case by simp
qed

text \<open>
  Claim C7. On Windows \<open>try_make_tempdir\<close> is the retry policy with the bound \<open>100\<close>:
  it makes at most 100 attempts (each one call of \<open>tmpnam_s\<close> and at most one creation,
  so at most 200 system calls); a failed name generation or a creation error other than
  "already exists" returns the empty result at once, "already exists" continues with
  the next attempt, a created directory is returned at once in a \<open>TempDir\<close>, and after
  100 attempts the result is empty.
\<close>

theorem windows_tempdir_bounded_retry:
  "try_make_tempdir Win32 w p = retry_spec 100 w \<and>
   clock (fst (try_make_tempdir Win32 w p)) \<le> clock w + 200"
  using tempdir_loop_retry [of 0 w] clock_retry_spec [of 100 w]
  by (simp add: try_make_tempdir_def)

text \<open>
  A run in which every creation finds the name taken makes all 100 attempts and ends
  with the empty result.
\<close>

lemma candidate_inj: "candidate i = candidate j \<Longrightarrow> i = j"
proof -
  assume "candidate i = candidate j"
  then have "length (candidate i) = length (candidate j)" by simp
  then show "i = j" by (simp add: candidate_def)
qed

lemma candidate_fresh: "lookup (fs w_taken) (candidate n) = None \<and> candidate n \<noteq> []"
  by (simp add: lookup_def w_taken_def candidate_def)

lemma always_taken_attempt:
  assumes "always_taken w"
  shows "\<exists>w2. tempdir_attempt w = (w2, None) \<and> always_taken w2 \<and> clock w2 = clock w + 2"
proof -
  let ?c = "clock w"
  from assms have f: "fs w = fs w_taken" and s: "script w = script w_taken"
    and e: "even ?c" and i: "\<forall>nm \<in> set (issued w). \<exists>j < ?c. nm = candidate j"
    by (simp_all add: always_taken_def)
  from e s have g: "script w ?c = Grant (candidate ?c)"
    by (simp add: w_taken_def)
  from e s have r: "script w (Suc ?c) = Refuse 183"
    by (simp add: w_taken_def)
  from i have n: "candidate ?c \<notin> set (issued w)"
    using candidate_inj by fastforce
  from f candidate_fresh [of ?c] have l: "lookup (fs w) (candidate ?c) = None"
    and ne: "candidate ?c \<noteq> []"
    by simp_all
  let ?w1 = "(tick w)\<lparr>issued := candidate ?c # issued w\<rparr>"
  let ?w2 = "(tick ?w1)\<lparr>last_error := 183\<rparr>"
  from g n l have m: "make_filename_win32 w = (?w1, candidate ?c)"
    by (simp add: make_filename_win32_def tmpnam_s_def)
  from l r have c: "create_directories ?w1 (candidate ?c) = (?w2, False)"
    by (simp add: create_directories_def tick_def ERROR_ALREADY_EXISTS_def)
  from m c ne have a: "tempdir_attempt w = (?w2, None)"
    by (simp add: tempdir_attempt_spec GetLastError_def ERROR_ALREADY_EXISTS_def)
  have "\<forall>nm \<in> set (candidate ?c # issued w). \<exists>j < Suc (Suc ?c). nm = candidate j"
  proof
    fix nm assume "nm \<in> set (candidate ?c # issued w)"
    then consider "nm = candidate ?c" | "nm \<in> set (issued w)" by auto
    then show "\<exists>j < Suc (Suc ?c). nm = candidate j"
    proof cases
      case 1
      then show ?thesis by (intro exI [of _ ?c]) simp
    next
      case 2
      with i obtain j where "j < ?c" "nm = candidate j" by blast
      then show ?thesis by (intro exI [of _ j]) simp
    qed
  qed
  with f s e have "always_taken ?w2"
    by (simp add: always_taken_def tick_def)
  moreover have "clock ?w2 = ?c + 2" by (simp add: tick_def)
  ultimately show ?thesis using a by blast
qed

lemma always_taken_exhausts:
  "always_taken w \<Longrightarrow>
     snd (retry_spec n w) = Inr None \<and> clock (fst (retry_spec n w)) = clock w + 2 * n"
proof (induction n arbitrary: w)
  case 0
  show ?case by simp
next
  case (Suc n)
  from always_taken_attempt [OF Suc.prems] obtain w2 where
    a: "tempdir_attempt w = (w2, None)" and t: "always_taken w2" and c: "clock w2 = clock w + 2"
    by blast
  from Suc.IH [OF t] c a show ?case
    unfolding retry_spec_attempt by simp
qed

lemma always_taken_start: "always_taken w_taken"
  by (simp add: always_taken_def w_taken_def)

theorem windows_tempdir_bounded_retry_witness:
  "snd (try_make_tempdir Win32 w_taken ''torch-dir-'') = Inr None \<and>
   clock (fst (try_make_tempdir Win32 w_taken ''torch-dir-'')) = 200 \<and>
   snd (try_make_tempdir Win32 w_third ''torch-dir-'') =
     Inr (Some \<lparr>TempDir.name = ''C:/Temp/saaaa''\<rparr>) \<and>
   clock (fst (try_make_tempdir Win32 w_third ''torch-dir-'')) = 6"
proof -
  have a: "snd (retry_spec 100 w_taken) = Inr None \<and>
      clock (fst (retry_spec 100 w_taken)) = 200"
    using always_taken_exhausts [OF always_taken_start, of 100] by (simp add: w_taken_def)
  have b: "snd (retry_spec 100 w_third) = Inr (Some \<lparr>TempDir.name = ''C:/Temp/saaaa''\<rparr>) \<and>
      clock (fst (retry_spec 100 w_third)) = 6"
    by code_simp
  from windows_tempdir_bounded_retry [of w_taken "''torch-dir-''"]
    windows_tempdir_bounded_retry [of w_third "''torch-dir-''"] a b
  show ?thesis by simp
qed

end
